theory Spec2Isabelle
  imports Main
begin

section \<open>Python values and exceptions\<close>

text \<open>
  The script \<^verbatim>\<open>create_AOI.py\<close> works on values decoded from JSON files: the job
  context, the dataset template and the metadata template. A decoded value is one of the
  constructors below. A dictionary nested inside a value is an association list with
  string keys (the first binding of a key is the one looked up); the three top-level
  dictionaries are maps from keys to values. A float is kept as an opaque pair (mantissa
  and binary exponent): the script itself never computes with numbers.

  A Python \<^verbatim>\<open>str\<close> is modelled by its UTF-8 bytes. Every string operation of the
  script (replacing a space, deleting the characters outside an ASCII class, splitting at
  a comma, testing an ASCII prefix) looks at ASCII characters only, and every byte of a
  multi-byte sequence is at least 128, so the operation on code points and the operation
  on bytes agree.
\<close>

datatype pyval =
    PNone
  | PBool bool
  | PInt int
  | PFloat int int
  | PStr string
  | PList "pyval list"
  | PDict "(string \<times> pyval) list"

type_synonym pydict = "string \<rightharpoonup> pyval"

text \<open>
  Exceptions. The first four are raised by the interpreter; the others are the
  \<^verbatim>\<open>Exception(message)\<close> objects the script raises itself, named after their
  message and carrying the value formatted into it.
\<close>

datatype error =
    KeyError string
  | AttributeError
  | TypeError
  | UnboundLocalError string
  | UnableToParseInputTime pyval
  | UnableToParseInputGeojsonString string
  | UnableToParseGeojson pyval
  | AdditionalMetadataCannotBeParsed

type_synonym 'a result = "error + 'a"

text \<open>\<^verbatim>\<open>d[k]\<close> on a dictionary raises \<^verbatim>\<open>KeyError\<close> when the key is missing.\<close>

definition subscript :: "pydict \<Rightarrow> string \<Rightarrow> pyval result" where
  "subscript d k = (case d k of None \<Rightarrow> Inl (KeyError k) | Some v \<Rightarrow> Inr v)"

text \<open>
  Calling a \<^verbatim>\<open>str\<close> method (\<^verbatim>\<open>replace\<close>, \<^verbatim>\<open>split\<close>) on a value that is not
  a string raises \<^verbatim>\<open>AttributeError\<close>: none of the other decoded types has these
  methods.
\<close>

definition str_receiver :: "pyval \<Rightarrow> string result" where
  "str_receiver v = (case v of PStr s \<Rightarrow> Inr s | _ \<Rightarrow> Inl AttributeError)"


section \<open>Label and type sanitizer\<close>

text \<open>\<^verbatim>\<open>s.replace(' ', '_')\<close>\<close>

definition replace_space_underscore :: "string \<Rightarrow> string" where
  "replace_space_underscore s = map (\<lambda>c. if c = CHR '' '' then CHR ''_'' else c) s"

text \<open>The character class \<^verbatim>\<open>[a-zA-Z0-9_]\<close>, by character code.\<close>

definition word_char :: "char \<Rightarrow> bool" where
  "word_char c =
     (let n = (of_char c :: nat) in
      (97 \<le> n \<and> n \<le> 122) \<or> (65 \<le> n \<and> n \<le> 90) \<or> (48 \<le> n \<and> n \<le> 57) \<or> n = 95)"

text \<open>
  \<^verbatim>\<open>re.sub(r"[^a-zA-Z0-9_]+", '', s)\<close>: every maximal run of characters outside the
  class is replaced by the empty string, which deletes exactly the characters outside
  the class.
\<close>

definition re_sub_non_word :: "string \<Rightarrow> string" where
  "re_sub_non_word s = filter word_char s"

text \<open>\<^verbatim>\<open>validate_type\<close> (lines 102-104), on a string argument.\<close>

definition validate_type :: "string \<Rightarrow> string" where
  "validate_type aoi_type = re_sub_non_word (replace_space_underscore aoi_type)"

text \<open>
  \<^verbatim>\<open>s.lstrip(chars)\<close>: Python removes leading characters as long as they belong to
  the set of characters of the argument.
\<close>

definition lstrip :: "string \<Rightarrow> string \<Rightarrow> string" where
  "lstrip chars s = dropWhile (\<lambda>c. c \<in> set chars) s"

text \<open>\<^verbatim>\<open>s.startswith(p)\<close>\<close>

definition startswith :: "string \<Rightarrow> string \<Rightarrow> bool" where
  "startswith s p = (take (length p) s = p)"

text \<open>\<^verbatim>\<open>generate_label\<close> (lines 95-100), on string arguments.\<close>

definition generate_label :: "string \<Rightarrow> string \<Rightarrow> string" where
  "generate_label label aoi_type =
     (let label1 = re_sub_non_word (replace_space_underscore label);
          label2 = (if startswith label1 ''AOI_'' then lstrip ''AOI_'' label1 else label1)
      in ''AOI_'' @ aoi_type @ ''_'' @ label2)"

text \<open>
  What the specification asks of the prefix step: remove one literal leading
  \<^verbatim>\<open>AOI_\<close>, and nothing else.
\<close>

definition remove_literal_prefix :: "string \<Rightarrow> string \<Rightarrow> string" where
  "remove_literal_prefix p s = (if startswith s p then drop (length p) s else s)"

definition spec_generate_label :: "string \<Rightarrow> string \<Rightarrow> string" where
  "spec_generate_label label aoi_type =
     ''AOI_'' @ aoi_type @ ''_'' @
       remove_literal_prefix ''AOI_'' (re_sub_non_word (replace_space_underscore label))"



section \<open>External library calls\<close>

text \<open>
  The script calls four functions of libraries that are not part of the repository:
  \<^verbatim>\<open>json.loads\<close>, \<^verbatim>\<open>ast.literal_eval\<close>, \<^verbatim>\<open>dateutil.parser.parse\<close> and
  shapely's \<^verbatim>\<open>mapping(Polygon(ring))\<close>. They are parameters of the model. Each
  returns \<open>None\<close> where the library raises an exception: the script catches every such
  exception with a bare \<^verbatim>\<open>except\<close>, so only the fact that one was raised matters.
\<close>

text \<open>
  A \<^verbatim>\<open>datetime\<close> object: its calendar fields and, for an aware object, the offset
  of its time zone in seconds east of UTC. Python keeps the fields in the ranges of
  \<open>valid_datetime\<close>: the years run from 1 to 9999.
\<close>

record datetime =
  year :: nat
  month :: nat
  day :: nat
  hour :: nat
  minute :: nat
  second :: nat
  utcoffset :: "int option"

definition valid_datetime :: "datetime \<Rightarrow> bool" where
  "valid_datetime d =
     (1 \<le> year d \<and> year d \<le> 9999 \<and> 1 \<le> month d \<and> month d \<le> 12 \<and>
      1 \<le> day d \<and> day d \<le> 31 \<and> hour d < 24 \<and> minute d < 60 \<and> second d < 60)"

record library =
  json_loads :: "string \<Rightarrow> pyval option"
  literal_eval :: "string \<Rightarrow> pyval option"
  dateutil_parse :: "string \<Rightarrow> datetime option"
  polygon_mapping :: "pyval \<Rightarrow> pyval option"


section \<open>Time validator\<close>

definition digit_char :: "nat \<Rightarrow> char" where
  "digit_char n = ''0123456789'' ! (n mod 10)"

text \<open>\<^verbatim>\<open>%m\<close>, \<^verbatim>\<open>%d\<close>, \<^verbatim>\<open>%H\<close>, \<^verbatim>\<open>%M\<close>, \<^verbatim>\<open>%S\<close>: two digits, zero padded.\<close>

definition zero_pad2 :: "nat \<Rightarrow> string" where
  "zero_pad2 n = [digit_char (n div 10), digit_char n]"

text \<open>
  \<^verbatim>\<open>%Y\<close>: the year as a decimal number. The C library under the interpreter (glibc)
  prints it without padding, so a year below 1000 has fewer than four digits: the year
  999 is printed \<^verbatim>\<open>999\<close>.
\<close>

function decimal_digits :: "nat \<Rightarrow> string" where
  "decimal_digits n =
     (if n < 10 then [digit_char n] else decimal_digits (n div 10) @ [digit_char n])"
  by pat_completeness auto
termination
  by (relation "measure id") auto

declare decimal_digits.simps [simp del]

text \<open>
  \<^verbatim>\<open>outtime.strftime('%Y-%m-%dT%H:%M:%SZ')\<close>. The directives print the fields of the
  object as they are; the final \<^verbatim>\<open>Z\<close> is a literal character of the format. The
  offset of the object is not read.
\<close>

definition strftime_iso_z :: "datetime \<Rightarrow> string" where
  "strftime_iso_z d =
     decimal_digits (year d) @ ''-'' @ zero_pad2 (month d) @ ''-'' @ zero_pad2 (day d) @ ''T'' @
     zero_pad2 (hour d) @ '':'' @ zero_pad2 (minute d) @ '':'' @ zero_pad2 (second d) @ ''Z''"

text \<open>
  \<^verbatim>\<open>dateutil.parser.parse(x)\<close> on a decoded value: the parser raises on anything but
  a string. The time validators take the parser itself as their parameter.
\<close>

definition parse_time :: "(string \<Rightarrow> datetime option) \<Rightarrow> pyval \<Rightarrow> datetime option" where
  "parse_time parse v = (case v of PStr s \<Rightarrow> parse s | _ \<Rightarrow> None)"

text \<open>\<^verbatim>\<open>validate_time\<close> (lines 106-113).\<close>

definition validate_time :: "(string \<Rightarrow> datetime option) \<Rightarrow> pyval \<Rightarrow> string result" where
  "validate_time parse input_time_string =
     (case parse_time parse input_time_string of
        None \<Rightarrow> Inl (UnableToParseInputTime input_time_string)
      | Some outtime \<Rightarrow> Inr (strftime_iso_z outtime))"

text \<open>
  \<^verbatim>\<open>validate_event_time\<close> (lines 115-124). The result \<open>Inr None\<close> is the Python
  return value \<^verbatim>\<open>None\<close>. The guard compares the argument with the empty string.
\<close>

definition validate_event_time ::
  "(string \<Rightarrow> datetime option) \<Rightarrow> pyval \<Rightarrow> string option result" where
  "validate_event_time parse input_time_string =
     (if input_time_string = PStr [] then Inr None
      else (case parse_time parse input_time_string of
              None \<Rightarrow> Inl (UnableToParseInputTime input_time_string)
            | Some outtime \<Rightarrow> Inr (Some (strftime_iso_z outtime))))"


subsection \<open>The instant in UTC, as the specification words it\<close>

definition leap_year :: "nat \<Rightarrow> bool" where
  "leap_year y = (if y mod 400 = 0 then True else if y mod 100 = 0 then False else y mod 4 = 0)"

definition days_in_month :: "nat \<Rightarrow> nat \<Rightarrow> nat" where
  "days_in_month y m =
     (if m = 2 then (if leap_year y then 29 else 28)
      else if m = 4 \<or> m = 6 \<or> m = 9 \<or> m = 11 then 30 else 31)"

definition previous_day :: "datetime \<Rightarrow> datetime" where
  "previous_day d =
     (if 1 < day d then d\<lparr>day := day d - 1\<rparr>
      else if 1 < month d then d\<lparr>month := month d - 1, day := days_in_month (year d) (month d - 1)\<rparr>
      else d\<lparr>year := year d - 1, month := 12, day := 31\<rparr>)"

definition next_day :: "datetime \<Rightarrow> datetime" where
  "next_day d =
     (if day d < days_in_month (year d) (month d) then d\<lparr>day := day d + 1\<rparr>
      else if month d < 12 then d\<lparr>month := month d + 1, day := 1\<rparr>
      else d\<lparr>year := year d + 1, month := 1, day := 1\<rparr>)"

definition set_time_of_day :: "nat \<Rightarrow> datetime \<Rightarrow> datetime" where
  "set_time_of_day t d =
     d\<lparr>hour := t div 3600, minute := t mod 3600 div 60, second := t mod 60, utcoffset := Some 0\<rparr>"

text \<open>
  The same instant on the UTC clock: the offset is subtracted from the time of day, and
  the date moves by one day when the time of day leaves the day (an offset is less than one
  day long). A naive object carries no offset and is read as UTC already.
\<close>

definition utc_instant :: "datetime \<Rightarrow> datetime" where
  "utc_instant d =
     (case utcoffset d of
        None \<Rightarrow> d
      | Some off \<Rightarrow>
          (let t = int (hour d * 3600 + minute d * 60 + second d) - off in
           if t < 0 then set_time_of_day (nat (t + 86400)) (previous_day d)
           else if 86400 \<le> t then set_time_of_day (nat (t - 86400)) (next_day d)
           else set_time_of_day (nat t) d))"

definition spec_validate_time ::
  "(string \<Rightarrow> datetime option) \<Rightarrow> pyval \<Rightarrow> string result" where
  "spec_validate_time parse input_time_string =
     (case parse_time parse input_time_string of
        None \<Rightarrow> Inl (UnableToParseInputTime input_time_string)
      | Some outtime \<Rightarrow> Inr (strftime_iso_z (utc_instant outtime)))"


subsection \<open>The date parser on ISO 8601 strings\<close>

text \<open>
  To evaluate the validators on concrete strings the parser parameter is instantiated
  with the fragment of \<^verbatim>\<open>dateutil.parser.parse\<close> on strings of the forms
  \<^verbatim>\<open>YYYY-MM-DD\<close>, \<^verbatim>\<open>YYYY-MM-DD HH:MM\<close> and \<^verbatim>\<open>YYYY-MM-DDTHH:MM:SS\<close>, the last
  two with an optional \<^verbatim>\<open>Z\<close> or \<^verbatim>\<open>+HH:MM\<close> / \<^verbatim>\<open>-HH:MM\<close> suffix. On these the
  library returns the fields as written (midnight when no time is given) and, for a
  suffix, an aware object with that offset. The fragment is \<open>None\<close> on every other
  string; it is used at strings of these forms only.
\<close>

definition digit_of :: "char \<Rightarrow> nat option" where
  "digit_of c =
     (let n = (of_char c :: nat) in if 48 \<le> n \<and> n \<le> 57 then Some (n - 48) else None)"

fun decimal :: "nat \<Rightarrow> string \<Rightarrow> nat option" where
  "decimal a [] = Some a"
| "decimal a (c # cs) = (case digit_of c of None \<Rightarrow> None | Some d \<Rightarrow> decimal (10 * a + d) cs)"

definition field :: "nat \<Rightarrow> nat \<Rightarrow> string \<Rightarrow> nat option" where
  "field i n s = (if i + n \<le> length s then decimal 0 (take n (drop i s)) else None)"

definition char_at :: "nat \<Rightarrow> string \<Rightarrow> char option" where
  "char_at i s = (if i < length s then Some (s ! i) else None)"

definition iso_offset :: "string \<Rightarrow> int option option" where
  "iso_offset z =
     (if z = [] then Some None
      else if z = ''Z'' then Some (Some 0)
      else if length z = 6 \<and> char_at 3 z = Some CHR '':'' \<and>
              (char_at 0 z = Some CHR ''+'' \<or> char_at 0 z = Some CHR ''-'') then
        (case (field 1 2 z, field 4 2 z) of
           (Some h, Some m) \<Rightarrow>
             (if h < 24 \<and> m < 60 then
                Some (Some ((if char_at 0 z = Some CHR ''-'' then - 1 else 1) *
                            int (h * 3600 + m * 60)))
              else None)
         | _ \<Rightarrow> None)
      else None)"

definition iso_time :: "string \<Rightarrow> (nat \<times> nat \<times> nat \<times> int option) option" where
  "iso_time r =
     (if r = [] then Some (0, 0, 0, None)
      else if (char_at 0 r = Some CHR ''T'' \<or> char_at 0 r = Some CHR '' '') \<and>
              char_at 3 r = Some CHR '':'' then
        (case (field 1 2 r, field 4 2 r) of
           (Some h, Some m) \<Rightarrow>
             (if char_at 6 r = Some CHR '':'' then
                (case (field 7 2 r, iso_offset (drop 9 r)) of
                   (Some s, Some off) \<Rightarrow>
                     (if h < 24 \<and> m < 60 \<and> s < 60 then Some (h, m, s, off) else None)
                 | _ \<Rightarrow> None)
              else
                (case iso_offset (drop 6 r) of
                   Some off \<Rightarrow> (if h < 24 \<and> m < 60 then Some (h, m, 0, off) else None)
                 | None \<Rightarrow> None))
         | _ \<Rightarrow> None)
      else None)"

definition dateutil_iso :: "string \<Rightarrow> datetime option" where
  "dateutil_iso s =
     (if char_at 4 s = Some CHR ''-'' \<and> char_at 7 s = Some CHR ''-'' then
        (case (field 0 4 s, field 5 2 s, field 8 2 s, iso_time (drop 10 s)) of
           (Some y, Some m, Some d, Some (h, mi, se, off)) \<Rightarrow>
             (if 1 \<le> y \<and> 1 \<le> m \<and> m \<le> 12 \<and> 1 \<le> d \<and> d \<le> days_in_month y m then
                Some \<lparr>year = y, month = m, day = d, hour = h, minute = mi, second = se,
                      utcoffset = off\<rparr>
              else None)
         | _ \<Rightarrow> None)
      else None)"


subsection \<open>The format, read back\<close>

text \<open>
  A string is the rendering \<^verbatim>\<open>YYYY-MM-DDTHH:MM:SSZ\<close> of a date-time when it has
  twenty characters, the separators stand at their places, and the digits between them
  are the decimal numbers of the six fields.
\<close>

definition iso_z_string :: "datetime \<Rightarrow> string \<Rightarrow> bool" where
  "iso_z_string d s =
     (length s = 20 \<and>
      field 0 4 s = Some (year d) \<and> char_at 4 s = Some CHR ''-'' \<and>
      field 5 2 s = Some (month d) \<and> char_at 7 s = Some CHR ''-'' \<and>
      field 8 2 s = Some (day d) \<and> char_at 10 s = Some CHR ''T'' \<and>
      field 11 2 s = Some (hour d) \<and> char_at 13 s = Some CHR '':'' \<and>
      field 14 2 s = Some (minute d) \<and> char_at 16 s = Some CHR '':'' \<and>
      field 17 2 s = Some (second d) \<and> char_at 19 s = Some CHR ''Z'')"

text \<open>
  The same rendering with a year of \<open>k\<close> digits: \<open>k\<close> digits that are the decimal
  number of the year, then \<^verbatim>\<open>-MM-DDTHH:MM:SSZ\<close>.
\<close>

definition iso_z_string_at :: "nat \<Rightarrow> datetime \<Rightarrow> string \<Rightarrow> bool" where
  "iso_z_string_at k d s =
     (length s = k + 16 \<and>
      field 0 k s = Some (year d) \<and> char_at k s = Some CHR ''-'' \<and>
      field (k + 1) 2 s = Some (month d) \<and> char_at (k + 3) s = Some CHR ''-'' \<and>
      field (k + 4) 2 s = Some (day d) \<and> char_at (k + 6) s = Some CHR ''T'' \<and>
      field (k + 7) 2 s = Some (hour d) \<and> char_at (k + 9) s = Some CHR '':'' \<and>
      field (k + 10) 2 s = Some (minute d) \<and> char_at (k + 12) s = Some CHR '':'' \<and>
      field (k + 13) 2 s = Some (second d) \<and> char_at (k + 15) s = Some CHR ''Z'')"


section \<open>Geometry normalizer\<close>

text \<open>
  The two decoders of lines 130-135: \<^verbatim>\<open>json.loads\<close> first,
  \<^verbatim>\<open>ast.literal_eval\<close> when it raises.
\<close>

definition decode_string :: "library \<Rightarrow> string \<Rightarrow> pyval option" where
  "decode_string L s =
     (case json_loads L s of Some v \<Rightarrow> Some v | None \<Rightarrow> literal_eval L s)"

text \<open>
  \<^verbatim>\<open>x[0]\<close>: the first element of a list, the first character of a string (a lead byte
  and its continuation bytes); \<^verbatim>\<open>IndexError\<close> on an empty one, \<^verbatim>\<open>KeyError\<close> on a
  dictionary (its keys are strings), \<^verbatim>\<open>TypeError\<close> on the other values. All of them
  are caught by the \<^verbatim>\<open>except\<close> of line 147, so the model returns \<open>None\<close>.
\<close>

definition continuation_byte :: "char \<Rightarrow> bool" where
  "continuation_byte c = (let n = (of_char c :: nat) in 128 \<le> n \<and> n < 192)"

definition subscript0 :: "pyval \<Rightarrow> pyval option" where
  "subscript0 v =
     (case v of
        PList (x # xs) \<Rightarrow> Some x
      | PStr (c # cs) \<Rightarrow> Some (PStr (c # takeWhile continuation_byte cs))
      | _ \<Rightarrow> None)"

text \<open>
  The \<^verbatim>\<open>try\<close> block of lines 137-146. \<^verbatim>\<open>input_geojson.keys()\<close> is evaluated
  first, on whatever the value is: only a dictionary has the method, and every other
  value raises \<^verbatim>\<open>AttributeError\<close> there.
\<close>

definition try_polygon :: "library \<Rightarrow> pyval \<Rightarrow> pyval option" where
  "try_polygon L input_geojson =
     (case input_geojson of
        PDict d \<Rightarrow>
          (case map_of d ''coordinates'' of
             Some coordinates \<Rightarrow>
               (case subscript0 coordinates of
                  None \<Rightarrow> None
                | Some ring \<Rightarrow> polygon_mapping L ring)
           | None \<Rightarrow> polygon_mapping L input_geojson)
      | _ \<Rightarrow> None)"

text \<open>\<^verbatim>\<open>validate_geojson\<close> (lines 126-148).\<close>

definition validate_geojson :: "library \<Rightarrow> pyval \<Rightarrow> pyval result" where
  "validate_geojson L input_geojson =
     (case (case input_geojson of
              PStr s \<Rightarrow>
                (case decode_string L s of
                   None \<Rightarrow> Inl (UnableToParseInputGeojsonString s)
                 | Some v \<Rightarrow> Inr v)
            | _ \<Rightarrow> Inr input_geojson) of
        Inl e \<Rightarrow> Inl e
      | Inr g \<Rightarrow>
          (case try_polygon L g of
             None \<Rightarrow> Inl (UnableToParseGeojson g)
           | Some location \<Rightarrow> Inr location))"


subsection \<open>The polygon constructor on rings of points\<close>

text \<open>
  To evaluate the normalizer on concrete rings the geometry parameter is instantiated
  with shapely's \<^verbatim>\<open>mapping(Polygon(ring))\<close> on a list of points, each a list of two
  numbers: the coordinates become floats, a ring whose last point differs from its first
  is closed by repeating the first, and the result is the mapping with the keys
  \<^verbatim>\<open>type\<close> and \<^verbatim>\<open>coordinates\<close>, the latter holding the one exterior ring (tuples
  are written as lists, as \<^verbatim>\<open>json.dump\<close> writes them). The instance is \<open>None\<close> on
  every other value and on a ring of fewer than four points after closing; it is used at
  rings of integer points only.
\<close>

definition as_float :: "pyval \<Rightarrow> pyval option" where
  "as_float v = (case v of PInt i \<Rightarrow> Some (PFloat i 0) | PFloat m e \<Rightarrow> Some (PFloat m e) | _ \<Rightarrow> None)"

definition as_point :: "pyval \<Rightarrow> pyval option" where
  "as_point v =
     (case v of
        PList [x, y] \<Rightarrow>
          (case (as_float x, as_float y) of
             (Some a, Some b) \<Rightarrow> Some (PList [a, b])
           | _ \<Rightarrow> None)
      | _ \<Rightarrow> None)"

fun all_some :: "'a option list \<Rightarrow> 'a list option" where
  "all_some [] = Some []"
| "all_some (None # xs) = None"
| "all_some (Some x # xs) = (case all_some xs of None \<Rightarrow> None | Some ys \<Rightarrow> Some (x # ys))"

definition close_ring :: "pyval list \<Rightarrow> pyval list" where
  "close_ring ps = (case ps of [] \<Rightarrow> [] | p # qs \<Rightarrow> if last ps = p then ps else ps @ [p])"

definition shapely_ring :: "pyval \<Rightarrow> pyval option" where
  "shapely_ring v =
     (case v of
        PList pts \<Rightarrow>
          (case all_some (map as_point pts) of
             None \<Rightarrow> None
           | Some ps \<Rightarrow>
               (if 4 \<le> length (close_ring ps) then
                  Some (PDict [(''type'', PStr ''Polygon''),
                               (''coordinates'', PList [PList (close_ring ps)])])
                else None))
      | _ \<Rightarrow> None)"


section \<open>Email list parser\<close>

text \<open>\<^verbatim>\<open>validate_email\<close> (lines 157-159): \<^verbatim>\<open>email.replace(' ', '')\<close>.\<close>

definition validate_email :: "string \<Rightarrow> string" where
  "validate_email email = filter (\<lambda>c. c \<noteq> CHR '' '') email"

text \<open>
  \<^verbatim>\<open>s.split(sep)\<close> for a separator of one character: the pieces between the
  occurrences of the separator, empty pieces included.
\<close>

fun split :: "char \<Rightarrow> string \<Rightarrow> string list" where
  "split sep [] = [[]]"
| "split sep (c # cs) =
     (if c = sep then [] # split sep cs
      else (case split sep cs of [] \<Rightarrow> [[c]] | piece # pieces \<Rightarrow> (c # piece) # pieces))"

text \<open>
  A list comprehension over calls that may raise: the first exception ends it.
\<close>

fun collect :: "'a result list \<Rightarrow> 'a list result" where
  "collect [] = Inr []"
| "collect (Inl e # rs) = Inl e"
| "collect (Inr x # rs) = (case collect rs of Inl e \<Rightarrow> Inl e | Inr xs \<Rightarrow> Inr (x # xs))"

text \<open>\<^verbatim>\<open>validate_email(item)\<close> on a decoded value.\<close>

definition validate_email_item :: "pyval \<Rightarrow> string result" where
  "validate_email_item item =
     (case str_receiver item of Inl e \<Rightarrow> Inl e | Inr s \<Rightarrow> Inr (validate_email s))"

text \<open>\<^verbatim>\<open>parse_emails\<close> (lines 150-155).\<close>

definition parse_emails :: "pyval \<Rightarrow> string list result" where
  "parse_emails emails =
     (case emails of
        PList items \<Rightarrow> collect (map validate_email_item items)
      | _ \<Rightarrow>
          (case str_receiver emails of
             Inl e \<Rightarrow> Inl e
           | Inr s \<Rightarrow> Inr (map validate_email (split CHR '','' s))))"

text \<open>\<^verbatim>\<open>', '.join\<close>-style joining with a separator of one character, to state what
  \<open>split\<close> computes.\<close>

fun join :: "char \<Rightarrow> string list \<Rightarrow> string" where
  "join sep [] = []"
| "join sep [piece] = piece"
| "join sep (piece # pieces) = piece @ sep # join sep pieces"


section \<open>Dataset record\<close>

definition and_then :: "'a result \<Rightarrow> ('a \<Rightarrow> 'b result) \<Rightarrow> 'b result" where
  "and_then r f = (case r of Inl e \<Rightarrow> Inl e | Inr x \<Rightarrow> f x)"

text \<open>
  \<^verbatim>\<open>set(xs)\<close> raises \<^verbatim>\<open>TypeError\<close> on an element that cannot be hashed: a list or
  a dictionary.
\<close>

definition hashable :: "pyval \<Rightarrow> bool" where
  "hashable v = (case v of PList xs \<Rightarrow> False | PDict d \<Rightarrow> False | _ \<Rightarrow> True)"

text \<open>
  \<^verbatim>\<open>list(set(xs))\<close>: the elements of \<^verbatim>\<open>xs\<close>, each once. Python leaves the order
  of the result open; the model keeps the order of the last occurrences, and nothing
  below depends on it. Elements are compared as values of the model; Python also
  identifies equal numbers of different types (\<^verbatim>\<open>1\<close>, \<^verbatim>\<open>1.0\<close> and \<^verbatim>\<open>True\<close>),
  which does not arise among strings.
\<close>

definition list_of_set :: "pyval list \<Rightarrow> pyval list result" where
  "list_of_set xs = (if list_all hashable xs then Inr (remdups xs) else Inl TypeError)"

text \<open>
  Lines 42-45. The result is \<open>None\<close> when the context has no \<^verbatim>\<open>emails\<close> key: the
  local variable \<^verbatim>\<open>email_list\<close> is then never assigned. \<^verbatim>\<open>email_list +
  additional_emails\<close> raises \<^verbatim>\<open>TypeError\<close> unless the template's value is a list.
\<close>

definition merge_emails :: "pydict \<Rightarrow> pydict \<Rightarrow> pyval list option result" where
  "merge_emails context ds =
     (case context ''emails'' of
        None \<Rightarrow> Inr None
      | Some emails \<Rightarrow>
          and_then (subscript ds ''emails'') (\<lambda>email_list.
          and_then (parse_emails emails) (\<lambda>additional_emails.
          (case email_list of
             PList xs \<Rightarrow>
               and_then (list_of_set (xs @ map PStr additional_emails)) (\<lambda>ys. Inr (Some ys))
           | _ \<Rightarrow> Inl TypeError))))"

text \<open>
  Lines 36-45: the values computed before the record is written, in the order of the
  source; the first exception ends the computation.
\<close>

definition compute_fields ::
  "library \<Rightarrow> pydict \<Rightarrow> pydict \<Rightarrow>
     (string \<times> string \<times> pyval \<times> pyval \<times> string \<times> string \<times> pyval list option) result" where
  "compute_fields L context ds =
     and_then (subscript context ''type'') (\<lambda>t.
     and_then (str_receiver t) (\<lambda>ts.
     (let aoi_type = validate_type ts in
     and_then (subscript context ''name'') (\<lambda>n.
     and_then (str_receiver n) (\<lambda>ns.
     (let label = generate_label ns aoi_type in
     and_then (subscript context ''account'') (\<lambda>project.
     and_then (subscript context ''geojson_polygon'') (\<lambda>g.
     and_then (validate_geojson L g) (\<lambda>polygon_geojson.
     and_then (subscript context ''starttime'') (\<lambda>st.
     and_then (validate_time (dateutil_parse L) st) (\<lambda>starttime.
     and_then (subscript context ''endtime'') (\<lambda>et.
     and_then (validate_time (dateutil_parse L) et) (\<lambda>endtime.
     and_then (merge_emails context ds) (\<lambda>email_list.
     Inr (label, aoi_type, project, polygon_geojson, starttime, endtime, email_list)
     ))))))))))))))"

text \<open>
  \<^verbatim>\<open>build_aoi_ds\<close> (lines 34-54). The function updates the dictionary \<^verbatim>\<open>ds\<close> in
  place and returns it. The model returns the dictionary as the call leaves it, and the
  exception the call raised, if any: the function returns normally exactly when the
  second component is \<open>None\<close>, and the first component is then the value returned.
  Line 53 reads \<^verbatim>\<open>email_list\<close>, which raises \<^verbatim>\<open>UnboundLocalError\<close> when the
  variable was never assigned, after lines 47-52 have written the other six fields.
\<close>

definition build_aoi_ds :: "library \<Rightarrow> pydict \<Rightarrow> pydict \<Rightarrow> pydict \<times> error option" where
  "build_aoi_ds L context ds =
     (case compute_fields L context ds of
        Inl e \<Rightarrow> (ds, Some e)
      | Inr (label, aoi_type, project, polygon_geojson, starttime, endtime, email_list) \<Rightarrow>
          (let ds6 = ds(''label'' \<mapsto> PStr label, ''type'' \<mapsto> PStr aoi_type,
                        ''account'' \<mapsto> project, ''location'' \<mapsto> polygon_geojson,
                        ''starttime'' \<mapsto> PStr starttime, ''endtime'' \<mapsto> PStr endtime)
           in (case email_list of
                 None \<Rightarrow> (ds6, Some (UnboundLocalError ''email_list''))
               | Some es \<Rightarrow> (ds6(''emails'' \<mapsto> PList es), None))))"


section \<open>Additional-metadata merger\<close>

text \<open>
  Lines 74-81. A dictionary is taken as it is. A string goes through the two decoders.
  Any other value makes both decoders raise (\<^verbatim>\<open>json.loads\<close> and
  \<^verbatim>\<open>ast.literal_eval\<close> take strings), which the script turns into its own exception.
\<close>

definition decode_metadata :: "library \<Rightarrow> pyval \<Rightarrow> pyval result" where
  "decode_metadata L additional_met =
     (case additional_met of
        PDict d \<Rightarrow> Inr additional_met
      | PStr s \<Rightarrow>
          (case decode_string L s of
             None \<Rightarrow> Inl AdditionalMetadataCannotBeParsed
           | Some v \<Rightarrow> Inr v)
      | _ \<Rightarrow> Inl AdditionalMetadataCannotBeParsed)"

text \<open>Lines 83-84: the key tested is \<^verbatim>\<open>user\<close>, the key read is \<^verbatim>\<open>username\<close>.\<close>

definition copy_username :: "(string \<times> pyval) list \<Rightarrow> pydict \<Rightarrow> pydict result" where
  "copy_username additional_met met =
     (if map_of additional_met ''user'' \<noteq> None then
        (case map_of additional_met ''username'' of
           None \<Rightarrow> Inl (KeyError ''username'')
         | Some v \<Rightarrow> Inr (met(''username'' \<mapsto> v)))
      else Inr met)"

text \<open>Lines 85-88.\<close>

definition copy_eventtime :: "library \<Rightarrow> (string \<times> pyval) list \<Rightarrow> pydict \<Rightarrow> pydict result" where
  "copy_eventtime L additional_met met =
     (case map_of additional_met ''eventtime'' of
        None \<Rightarrow> Inr met
      | Some v \<Rightarrow>
          (case validate_event_time (dateutil_parse L) v of
             Inl e \<Rightarrow> Inl e
           | Inr None \<Rightarrow> Inr met
           | Inr (Some event_time) \<Rightarrow> Inr (met(''eventtime'' \<mapsto> PStr event_time))))"

text \<open>Lines 89-92: a key copied as it is, when present.\<close>

definition copy_key :: "string \<Rightarrow> (string \<times> pyval) list \<Rightarrow> pydict \<Rightarrow> pydict" where
  "copy_key k additional_met met =
     (case map_of additional_met k of None \<Rightarrow> met | Some v \<Rightarrow> met(k \<mapsto> v))"

text \<open>
  \<^verbatim>\<open>parse_additional_metadata\<close> (lines 70-93). As for \<^verbatim>\<open>build_aoi_ds\<close>, the model
  returns the dictionary \<^verbatim>\<open>met\<close> as the call leaves it and the exception raised, if
  any. Line 83 calls \<^verbatim>\<open>keys()\<close> on the decoded value, which raises
  \<^verbatim>\<open>AttributeError\<close> unless it is a dictionary.
\<close>

definition parse_additional_metadata ::
  "library \<Rightarrow> pyval \<Rightarrow> pydict \<Rightarrow> pydict \<times> error option" where
  "parse_additional_metadata L additional_met met =
     (if additional_met = PStr [] \<or> additional_met = PNone then (met, None)
      else
        (case decode_metadata L additional_met of
           Inl e \<Rightarrow> (met, Some e)
         | Inr (PDict d) \<Rightarrow>
             (case copy_username d met of
                Inl e \<Rightarrow> (met, Some e)
              | Inr met1 \<Rightarrow>
                  (case copy_eventtime L d met1 of
                     Inl e \<Rightarrow> (met1, Some e)
                   | Inr met2 \<Rightarrow>
                       (copy_key ''event_metadata'' d (copy_key ''image_url'' d met2), None)))
         | Inr _ \<Rightarrow> (met, Some AttributeError)))"


section \<open>Example inputs\<close>

text \<open>The ring of the specification's examples: the unit square, closed.\<close>

definition unit_square :: "pyval list" where
  "unit_square =
     [PList [PInt 0, PInt 0], PList [PInt 0, PInt 1], PList [PInt 1, PInt 1],
      PList [PInt 1, PInt 0], PList [PInt 0, PInt 0]]"

text \<open>The same ring as shapely returns it, with float coordinates.\<close>

definition unit_square_float :: "pyval list" where
  "unit_square_float =
     [PList [PFloat 0 0, PFloat 0 0], PList [PFloat 0 0, PFloat 1 0], PList [PFloat 1 0, PFloat 1 0],
      PList [PFloat 1 0, PFloat 0 0], PList [PFloat 0 0, PFloat 0 0]]"

text \<open>
  A context with exactly the six core keys, the geometry given as a mapping with a
  \<^verbatim>\<open>coordinates\<close> key, and a dataset template with a default email list.
\<close>

definition minimal_context :: pydict where
  "minimal_context =
     [''type'' \<mapsto> PStr ''Wildfire'',
      ''name'' \<mapsto> PStr ''Flood Zone'',
      ''account'' \<mapsto> PStr ''ops'',
      ''geojson_polygon'' \<mapsto> PDict [(''coordinates'', PList [PList unit_square])],
      ''starttime'' \<mapsto> PStr ''2021-03-01 10:00'',
      ''endtime'' \<mapsto> PStr ''2021-03-02 10:00'']"

definition dataset_template :: pydict where
  "dataset_template = [''emails'' \<mapsto> PList [PStr ''ops@x.com'']]"

text \<open>The same context with an \<^verbatim>\<open>emails\<close> key that repeats the template's address.\<close>

definition context_with_emails :: pydict where
  "context_with_emails = minimal_context(''emails'' \<mapsto> PStr ''a@x.com, ops@x.com'')"



section \<open>Properties of the sanitizer\<close>

lemma word_char_not_space: "word_char c \<Longrightarrow> c \<noteq> CHR '' ''"
  by (auto simp: word_char_def)

lemma replace_space_underscore_word:
  "list_all word_char s \<Longrightarrow> replace_space_underscore s = s"
  by (induction s) (auto simp: replace_space_underscore_def dest: word_char_not_space)

lemma re_sub_non_word_all: "list_all word_char (re_sub_non_word s)"
  by (simp add: re_sub_non_word_def list_all_iff)

lemma re_sub_non_word_fixed: "list_all word_char s \<Longrightarrow> re_sub_non_word s = s"
  by (simp add: re_sub_non_word_def list_all_iff)

text \<open>
  C9. The sanitizer \<^verbatim>\<open>validate_type\<close> is idempotent, and every character of its
  output is an ASCII letter, a digit or an underscore.
\<close>

theorem validate_type_idempotent:
  "validate_type (validate_type s) = validate_type s \<and> list_all word_char (validate_type s)"
proof -
  have w: "list_all word_char (validate_type s)"
    unfolding validate_type_def by (rule re_sub_non_word_all)
  have "replace_space_underscore (validate_type s) = validate_type s"
    using w by (rule replace_space_underscore_word)
  then have "validate_type (validate_type s) = re_sub_non_word (validate_type s)"
    by (simp add: validate_type_def)
  also have "\<dots> = validate_type s"
    using w by (rule re_sub_non_word_fixed)
  finally show ?thesis using w by simp
qed

theorem validate_type_idempotent_witness:
  "validate_type (validate_type ''My Area!'') = validate_type ''My Area!''
   \<and> validate_type ''My Area!'' = ''My_Area''"
  using validate_type_idempotent [of "''My Area!''"]
  by (simp add: validate_type_def re_sub_non_word_def replace_space_underscore_def word_char_def)


section \<open>Properties of label generation\<close>

lemmas sanitizer_defs =
  generate_label_def validate_type_def startswith_def lstrip_def
  re_sub_non_word_def replace_space_underscore_def word_char_def

text \<open>The example of the specification: no doubled prefix.\<close>

lemma generate_label_example:
  "generate_label ''AOI_Flood Zone'' ''Wildfire'' = ''AOI_Wildfire_Flood_Zone''"
  by (simp add: sanitizer_defs)

lemma length_AOI: "length ''AOI_'' = 4"
  by simp

text \<open>After the literal prefix, \<open>lstrip\<close> goes on with the rest of the name.\<close>

lemma lstrip_after_prefix:
  assumes "startswith s ''AOI_''"
  shows "lstrip ''AOI_'' s = lstrip ''AOI_'' (drop 4 s)"
proof -
  from assms have t: "take 4 s = ''AOI_''"
    unfolding startswith_def length_AOI .
  have "take 4 s @ drop 4 s = s" by (rule append_take_drop_id)
  with t have "s = ''AOI_'' @ drop 4 s" by simp
  then have "lstrip ''AOI_'' s = lstrip ''AOI_'' (''AOI_'' @ drop 4 s)" by simp
  also have "\<dots> = lstrip ''AOI_'' (drop 4 s)" by (simp add: lstrip_def)
  finally show ?thesis .
qed

text \<open>
  The code and the specification agree on a name whose rest, after the literal prefix,
  does not begin with one of the characters \<^verbatim>\<open>A\<close>, \<^verbatim>\<open>O\<close>, \<^verbatim>\<open>I\<close>, \<^verbatim>\<open>_\<close>.
\<close>

lemma generate_label_agrees:
  assumes "lstrip ''AOI_'' (remove_literal_prefix ''AOI_'' (validate_type name))
             = remove_literal_prefix ''AOI_'' (validate_type name)"
  shows "generate_label name t = spec_generate_label name t"
proof (cases "startswith (validate_type name) ''AOI_''")
  case True
  with assms have "lstrip ''AOI_'' (drop 4 (validate_type name)) = drop 4 (validate_type name)"
    unfolding remove_literal_prefix_def length_AOI by simp
  with True lstrip_after_prefix [OF True] show ?thesis
    unfolding generate_label_def spec_generate_label_def remove_literal_prefix_def
      validate_type_def length_AOI Let_def by simp
next
  case False
  then show ?thesis
    unfolding generate_label_def spec_generate_label_def remove_literal_prefix_def
      validate_type_def Let_def by simp
qed

text \<open>
  C2. \<^verbatim>\<open>generate_label\<close> is to remove only a literal leading \<^verbatim>\<open>AOI_\<close> from the
  sanitized name. On the name \<^verbatim>\<open>AOI_Iowa\<close> the code goes on past the prefix and
  removes the \<^verbatim>\<open>I\<close> of \<^verbatim>\<open>Iowa\<close> as well: it returns \<^verbatim>\<open>AOI_Flood_owa\<close> where
  the literal removal gives \<^verbatim>\<open>AOI_Flood_Iowa\<close>.
\<close>

theorem generate_label_strips_character_set:
  "generate_label ''AOI_Iowa'' ''Flood'' = ''AOI_Flood_owa''
   \<and> spec_generate_label ''AOI_Iowa'' ''Flood'' = ''AOI_Flood_Iowa''"
  by (simp add: sanitizer_defs spec_generate_label_def remove_literal_prefix_def)


section \<open>Properties of the email list parser\<close>

lemma join_Cons_Cons: "join sep ((c # piece) # pieces) = c # join sep (piece # pieces)"
  by (cases pieces) simp_all

lemma split_join: "join sep (split sep s) = s"
  by (induction s) (auto simp: join_Cons_Cons split: list.splits)

lemma split_no_sep: "list_all (\<lambda>piece. sep \<notin> set piece) (split sep s)"
  by (induction s) (auto split: list.splits)

lemma split_length: "length (split sep s) = Suc (count_list s sep)"
  by (induction s) (auto split: list.splits)

lemma collect_strings:
  "collect (map validate_email_item (map PStr xs)) = Inr (map validate_email xs)"
  by (induction xs) (auto simp: validate_email_item_def str_receiver_def)

text \<open>
  C8. Given a list of strings, \<^verbatim>\<open>parse_emails\<close> returns the list of its elements with
  the spaces removed, in order. Given a string, it returns the pieces between the commas
  with the spaces removed, in order: the pieces joined by commas are the string again,
  no piece holds a comma, and there is one piece more than there are commas, so nothing is
  dropped or merged. On \<^verbatim>\<open>"a@x.com, b@x.com"\<close> the result is the two addresses.
\<close>

theorem parse_emails_spec:
  "parse_emails (PList (map PStr xs)) = Inr (map (filter (\<lambda>c. c \<noteq> CHR '' '')) xs)
   \<and> parse_emails (PStr s) = Inr (map (filter (\<lambda>c. c \<noteq> CHR '' '')) (split CHR '','' s))
   \<and> join CHR '','' (split CHR '','' s) = s
   \<and> list_all (\<lambda>piece. CHR '','' \<notin> set piece) (split CHR '','' s)
   \<and> length (split CHR '','' s) = Suc (count_list s CHR '','')
   \<and> parse_emails (PStr ''a@x.com, b@x.com'') = Inr [''a@x.com'', ''b@x.com'']"
proof -
  have ve: "validate_email = filter (\<lambda>c. c \<noteq> CHR '' '')"
    by (rule ext) (simp add: validate_email_def)
  have a: "parse_emails (PList (map PStr xs)) = Inr (map (filter (\<lambda>c. c \<noteq> CHR '' '')) xs)"
    using collect_strings [of xs] by (simp add: parse_emails_def ve)
  have b: "\<And>s. parse_emails (PStr s)
             = Inr (map (filter (\<lambda>c. c \<noteq> CHR '' '')) (split CHR '','' s))"
    by (simp add: parse_emails_def str_receiver_def ve)
  have c: "parse_emails (PStr ''a@x.com, b@x.com'') = Inr [''a@x.com'', ''b@x.com'']"
    by (simp add: b)
  show ?thesis
    using a b [of s] c split_join [of "CHR '',''" s] split_no_sep [of "CHR '',''" s]
      split_length [of "CHR '',''" s]
    by blast
qed

text \<open>A repeated address stays repeated.\<close>

theorem parse_emails_spec_witness:
  "parse_emails (PList [PStr ''a @x.com'', PStr ''a@x.com'']) = Inr [''a@x.com'', ''a@x.com'']
   \<and> parse_emails (PStr ''a@x.com, b@x.com,a@x.com'')
       = Inr [''a@x.com'', ''b@x.com'', ''a@x.com'']"
  using parse_emails_spec [of "[''a @x.com'', ''a@x.com'']" "''a@x.com, b@x.com,a@x.com''"]
  by simp


section \<open>Properties of the additional-metadata merger\<close>

lemmas metadata_defs =
  parse_additional_metadata_def decode_metadata_def copy_username_def copy_eventtime_def
  copy_key_def

text \<open>
  C4. A \<^verbatim>\<open>username\<close> key of the additional metadata is to be copied into the
  metadata record, and its absence is to leave the record alone without an error. The
  code tests the key \<^verbatim>\<open>user\<close> and reads the key \<^verbatim>\<open>username\<close>: a mapping that
  holds \<^verbatim>\<open>username\<close> only is not copied, and a mapping that holds \<^verbatim>\<open>user\<close> only
  raises \<^verbatim>\<open>KeyError\<close>.
\<close>

theorem parse_additional_metadata_username_key:
  "parse_additional_metadata L (PDict [(''username'', PStr ''bob'')]) Map.empty = (Map.empty, None)
   \<and> parse_additional_metadata L (PDict [(''user'', PStr ''bob'')]) Map.empty
       = (Map.empty, Some (KeyError ''username''))"
  by (simp add: metadata_defs)

lemma copy_username_frame:
  "copy_username d met = Inr met1 \<Longrightarrow> k \<noteq> ''username'' \<Longrightarrow> met1 k = met k"
  by (auto simp: copy_username_def split: if_splits option.splits)

lemma copy_eventtime_frame:
  "copy_eventtime L d met = Inr met1 \<Longrightarrow> k \<noteq> ''eventtime'' \<Longrightarrow> met1 k = met k"
  by (auto simp: copy_eventtime_def split: option.splits sum.splits)

lemma copy_key_frame: "k \<noteq> k' \<Longrightarrow> copy_key k' d met k = met k"
  by (simp add: copy_key_def split: option.splits)

lemma parse_additional_metadata_other_key:
  assumes "k \<noteq> ''username''" "k \<noteq> ''eventtime''" "k \<noteq> ''image_url''" "k \<noteq> ''event_metadata''"
  shows "fst (parse_additional_metadata L raw met) k = met k"
proof -
  have step: "fst (case copy_username d met of
                Inl e \<Rightarrow> (met, Some e)
              | Inr met1 \<Rightarrow>
                  (case copy_eventtime L d met1 of
                     Inl e \<Rightarrow> (met1, Some e)
                   | Inr met2 \<Rightarrow>
                       (copy_key ''event_metadata'' d (copy_key ''image_url'' d met2), None))) k
              = met k" for d
  proof (cases "copy_username d met")
    case (Inl e)
    then show ?thesis by simp
  next
    case (Inr met1)
    then have m1: "met1 k = met k" using assms(1) by (rule copy_username_frame)
    show ?thesis
    proof (cases "copy_eventtime L d met1")
      case (Inl e)
      with Inr m1 show ?thesis by simp
    next
      case r2: (Inr met2)
      then have "met2 k = met1 k" using assms(2) by (rule copy_eventtime_frame)
      with Inr r2 m1 assms(3,4) show ?thesis by (simp add: copy_key_frame)
    qed
  qed
  show ?thesis
    unfolding parse_additional_metadata_def
    using step by (simp split: sum.splits pyval.splits)
qed

lemma parse_additional_metadata_empty:
  "raw = PStr [] \<or> raw = PNone \<Longrightarrow> parse_additional_metadata L raw met = (met, None)"
  by (auto simp: parse_additional_metadata_def)

text \<open>
  C10. \<^verbatim>\<open>parse_additional_metadata\<close> leaves every key of the metadata record other
  than \<^verbatim>\<open>username\<close>, \<^verbatim>\<open>eventtime\<close>, \<^verbatim>\<open>image_url\<close> and \<^verbatim>\<open>event_metadata\<close>
  with its value (or its absence), whether the call returns or raises; and when the raw
  additional metadata is the empty string or \<^verbatim>\<open>None\<close> it returns the record unchanged.
\<close>

theorem parse_additional_metadata_frame:
  "(k \<notin> {''username'', ''eventtime'', ''image_url'', ''event_metadata''}
      \<longrightarrow> fst (parse_additional_metadata L raw met) k = met k)
   \<and> (raw = PStr [] \<or> raw = PNone \<longrightarrow> parse_additional_metadata L raw met = (met, None))"
  using parse_additional_metadata_other_key [of k L raw met]
    parse_additional_metadata_empty [of raw L met]
  by auto

theorem parse_additional_metadata_frame_witness:
  "\<forall>L. fst (parse_additional_metadata L
          (PDict [(''user'', PStr ''x''), (''username'', PStr ''bob''), (''image_url'', PStr ''http://u''),
                  (''tiles'', PBool False)])
          [''tiles'' \<mapsto> PBool True, ''username'' \<mapsto> PStr ''alice'']) ''tiles'' = Some (PBool True)
     \<and> parse_additional_metadata L PNone [''tiles'' \<mapsto> PBool True] = ([''tiles'' \<mapsto> PBool True], None)
     \<and> parse_additional_metadata L (PStr []) [''tiles'' \<mapsto> PBool True] = ([''tiles'' \<mapsto> PBool True], None)"
proof
  fix L
  show "fst (parse_additional_metadata L
          (PDict [(''user'', PStr ''x''), (''username'', PStr ''bob''), (''image_url'', PStr ''http://u''),
                  (''tiles'', PBool False)])
          [''tiles'' \<mapsto> PBool True, ''username'' \<mapsto> PStr ''alice'']) ''tiles'' = Some (PBool True)
     \<and> parse_additional_metadata L PNone [''tiles'' \<mapsto> PBool True] = ([''tiles'' \<mapsto> PBool True], None)
     \<and> parse_additional_metadata L (PStr []) [''tiles'' \<mapsto> PBool True] = ([''tiles'' \<mapsto> PBool True], None)"
    using parse_additional_metadata_frame [of "''tiles''" L
        "PDict [(''user'', PStr ''x''), (''username'', PStr ''bob''), (''image_url'', PStr ''http://u''),
                  (''tiles'', PBool False)]" "[''tiles'' \<mapsto> PBool True, ''username'' \<mapsto> PStr ''alice'']"]
      parse_additional_metadata_frame [of "''tiles''" L PNone "[''tiles'' \<mapsto> PBool True]"]
      parse_additional_metadata_frame [of "''tiles''" L "PStr []" "[''tiles'' \<mapsto> PBool True]"]
    by simp
qed


section \<open>Properties of the geometry normalizer\<close>

lemmas geometry_defs =
  validate_geojson_def try_polygon_def subscript0_def shapely_ring_def as_point_def
  as_float_def close_ring_def unit_square_def

text \<open>
  A list has no \<^verbatim>\<open>keys\<close> method: whatever the geometry library does, a bare list of
  coordinates ends in the exception of line 148, and the branch of line 144 that is
  commented as handling a list of coordinates is never reached with one.
\<close>

lemma validate_geojson_list_raises:
  "validate_geojson L (PList R) = Inl (UnableToParseGeojson (PList R))"
  by (simp add: validate_geojson_def try_polygon_def)

text \<open>
  C7. A bare ring and the mapping \<^verbatim>\<open>{"coordinates": [ring]}\<close> are to give the same
  normalized polygon. On the unit square the mapping form gives the polygon with the
  closed ring; the bare ring raises.
\<close>

theorem validate_geojson_ring_raises:
  "validate_geojson (L\<lparr>polygon_mapping := shapely_ring\<rparr>) (PList unit_square)
     = Inl (UnableToParseGeojson (PList unit_square))
   \<and> validate_geojson (L\<lparr>polygon_mapping := shapely_ring\<rparr>)
        (PDict [(''coordinates'', PList [PList unit_square])])
     = Inr (PDict [(''type'', PStr ''Polygon''), (''coordinates'', PList [PList unit_square_float])])"
  by (simp add: geometry_defs unit_square_float_def)


section \<open>Properties of the dataset record\<close>

lemmas iso_defs =
  dateutil_iso_def iso_time_def iso_offset_def field_def char_at_def digit_of_def
  days_in_month_def leap_year_def

lemmas strftime_defs = strftime_iso_z_def zero_pad2_def decimal_digits.simps digit_char_def

text \<open>
  Without an \<^verbatim>\<open>emails\<close> key the call never returns normally, whatever the libraries
  do and whatever the other keys hold.
\<close>

lemma build_aoi_ds_without_emails:
  assumes "context ''emails'' = None"
  shows "snd (build_aoi_ds L context ds) \<noteq> None"
  using assms
  by (auto simp: build_aoi_ds_def compute_fields_def merge_emails_def and_then_def Let_def
      split: sum.splits option.splits prod.splits)

text \<open>
  C1. A context with exactly the six core keys and valid values is to give a dataset
  record and no exception. On such a context every validator succeeds and the call then
  raises \<^verbatim>\<open>UnboundLocalError\<close> at line 53.
\<close>

theorem build_aoi_ds_minimal_context_raises:
  "snd (build_aoi_ds (L\<lparr>dateutil_parse := dateutil_iso, polygon_mapping := shapely_ring\<rparr>)
          minimal_context dataset_template) = Some (UnboundLocalError ''email_list'')"
  by (simp add: build_aoi_ds_def compute_fields_def and_then_def subscript_def str_receiver_def
      minimal_context_def dataset_template_def merge_emails_def validate_time_def parse_time_def
      iso_defs strftime_defs sanitizer_defs geometry_defs)


subsection \<open>The merged email list\<close>

lemma and_then_Inr: "and_then r f = Inr y \<Longrightarrow> \<exists>x. r = Inr x \<and> f x = Inr y"
  by (cases r) (simp_all add: and_then_def)

lemma remdups_map_inj: "inj f \<Longrightarrow> remdups (map f xs) = map f (remdups xs)"
  by (induction xs) (auto simp: inj_image_mem_iff)

lemma inj_PStr: "inj PStr"
  by (rule injI) simp

lemma hashable_strings: "list_all hashable (map PStr xs)"
  by (induction xs) (simp_all add: hashable_def)

lemma compute_fields_emails:
  assumes "compute_fields L context ds = Inr (label, aoi_type, project, g, st, et, email_list)"
  shows "merge_emails context ds = Inr email_list"
  using assms unfolding compute_fields_def Let_def
  by (auto dest!: and_then_Inr)

lemma merge_emails_strings:
  assumes "context ''emails'' = Some emails"
    and "ds ''emails'' = Some (PList (map PStr defaults))"
    and "merge_emails context ds = Inr email_list"
  shows "\<exists>additional. parse_emails emails = Inr additional
           \<and> email_list = Some (map PStr (remdups (defaults @ additional)))"
proof -
  from assms obtain additional ys where a: "parse_emails emails = Inr additional"
    and l: "list_of_set (map PStr defaults @ map PStr additional) = Inr ys"
    and e: "email_list = Some ys"
    unfolding merge_emails_def
    by (auto simp: subscript_def dest!: and_then_Inr)
  have "map PStr defaults @ map PStr additional = map PStr (defaults @ additional)" by simp
  with l have "ys = map PStr (remdups (defaults @ additional))"
    by (simp only: list_of_set_def hashable_strings remdups_map_inj [OF inj_PStr]) simp
  with a e show ?thesis by simp
qed

text \<open>
  C6. When the context has an \<^verbatim>\<open>emails\<close> key and \<^verbatim>\<open>build_aoi_ds\<close> returns, the
  \<^verbatim>\<open>emails\<close> field of the record is a list without repetitions whose elements are
  those of the template's default list together with those parsed from the context.
\<close>

theorem build_aoi_ds_emails:
  assumes "context ''emails'' = Some emails"
    and "ds ''emails'' = Some (PList (map PStr defaults))"
    and "build_aoi_ds L context ds = (ds', None)"
  shows "\<exists>additional out. parse_emails emails = Inr additional
           \<and> ds' ''emails'' = Some (PList (map PStr out))
           \<and> distinct out \<and> set out = set defaults \<union> set additional"
proof -
  from assms(3) obtain label aoi_type project g st et es
    where c: "compute_fields L context ds = Inr (label, aoi_type, project, g, st, et, Some es)"
      and d: "ds' ''emails'' = Some (PList es)"
    unfolding build_aoi_ds_def Let_def
    by (auto split: sum.splits option.splits prod.splits)
  from c have "merge_emails context ds = Inr (Some es)" by (rule compute_fields_emails)
  with assms(1,2) obtain additional where a: "parse_emails emails = Inr additional"
    and e: "es = map PStr (remdups (defaults @ additional))"
    using merge_emails_strings by blast
  have "distinct (remdups (defaults @ additional))" by simp
  moreover have "set (remdups (defaults @ additional)) = set defaults \<union> set additional" by simp
  ultimately show ?thesis using a d e by blast
qed

theorem build_aoi_ds_emails_witness:
  "\<forall>L. \<exists>out.
     snd (build_aoi_ds (L\<lparr>dateutil_parse := dateutil_iso, polygon_mapping := shapely_ring\<rparr>)
            context_with_emails dataset_template) = None
     \<and> fst (build_aoi_ds (L\<lparr>dateutil_parse := dateutil_iso, polygon_mapping := shapely_ring\<rparr>)
            context_with_emails dataset_template) ''emails'' = Some (PList (map PStr out))
     \<and> distinct out \<and> set out = {''ops@x.com'', ''a@x.com''}"
proof
  fix L :: library
  let ?L = "L\<lparr>dateutil_parse := dateutil_iso, polygon_mapping := shapely_ring\<rparr>"
  let ?r = "build_aoi_ds ?L context_with_emails dataset_template"
  have s: "snd ?r = None"
    by (simp add: build_aoi_ds_def compute_fields_def and_then_def subscript_def str_receiver_def
      context_with_emails_def minimal_context_def dataset_template_def merge_emails_def
      validate_time_def parse_time_def parse_emails_def list_of_set_def hashable_def
      validate_email_def iso_defs strftime_defs sanitizer_defs geometry_defs)
  then have r: "?r = (fst ?r, None)" by (simp add: prod_eq_iff)
  have e: "context_with_emails ''emails'' = Some (PStr ''a@x.com, ops@x.com'')"
    by (simp add: context_with_emails_def)
  have t: "dataset_template ''emails'' = Some (PList (map PStr [''ops@x.com'']))"
    by (simp add: dataset_template_def)
  have p: "parse_emails (PStr ''a@x.com, ops@x.com'') = Inr [''a@x.com'', ''ops@x.com'']"
    by (simp add: parse_emails_def str_receiver_def validate_email_def)
  from build_aoi_ds_emails [OF e t r] p
  obtain out where "fst ?r ''emails'' = Some (PList (map PStr out))" "distinct out"
    "set out = {''ops@x.com'', ''a@x.com''}"
    by auto
  with s show "\<exists>out. snd ?r = None \<and> fst ?r ''emails'' = Some (PList (map PStr out))
     \<and> distinct out \<and> set out = {''ops@x.com'', ''a@x.com''}"
    by blast
qed


section \<open>Properties of the time validators\<close>

subsection \<open>The formatted string shows the fields of the object\<close>

lemma digit_of_literal:
  assumes "m < 10"
  shows "digit_of (''0123456789'' ! m) = Some m"
proof -
  from assms have "m = 0 \<or> m = 1 \<or> m = 2 \<or> m = 3 \<or> m = 4 \<or> m = 5 \<or> m = 6 \<or> m = 7 \<or> m = 8 \<or> m = 9"
    by arith
  then show ?thesis
    by (elim disjE) (simp_all add: digit_of_def)
qed

lemma digit_of_digit_char: "digit_of (digit_char n) = Some (n mod 10)"
  unfolding digit_char_def by (rule digit_of_literal) simp

lemma two_digits:
  assumes "n < 100"
  shows "10 * (10 * 0 + n div 10 mod 10) + n mod 10 = (n::nat)"
proof -
  have "n div 10 < 10" using assms by simp
  then have h2: "n div 10 mod 10 = n div 10" by simp
  have h0: "10 * 0 + n div 10 = n div 10" by simp
  have h1: "10 * (n div 10) + n mod 10 = n" by simp
  show ?thesis unfolding h2 h0 h1 ..
qed

lemma decimal_zero_pad2:
  assumes "n < 100"
  shows "decimal 0 (zero_pad2 n) = Some n"
  by (simp only: zero_pad2_def decimal.simps digit_of_digit_char option.case
      two_digits [OF assms])

lemma length_zero_pad2: "length (zero_pad2 n) = 2"
  by (simp add: zero_pad2_def)

text \<open>The digits of the year are its decimal number, with no digit to spare.\<close>

lemma decimal_append:
  "decimal a (xs @ ys) = (case decimal a xs of None \<Rightarrow> None | Some b \<Rightarrow> decimal b ys)"
  by (induction xs arbitrary: a) (auto split: option.splits)

lemma decimal_digits_small: "n < 10 \<Longrightarrow> decimal_digits n = [digit_char n]"
  by (subst decimal_digits.simps) simp

lemma decimal_digits_large:
  "10 \<le> n \<Longrightarrow> decimal_digits n = decimal_digits (n div 10) @ [digit_char n]"
  by (subst decimal_digits.simps) simp

lemma decimal_decimal_digits: "decimal 0 (decimal_digits n) = Some n"
proof (induction n rule: decimal_digits.induct)
  case (1 n)
  show ?case
  proof (cases "n < 10")
    case True
    then show ?thesis
      by (simp add: decimal_digits_small digit_of_digit_char)
  next
    case False
    with 1 have "decimal 0 (decimal_digits (n div 10)) = Some (n div 10)" by simp
    with False show ?thesis
      by (simp add: decimal_digits_large decimal_append digit_of_digit_char)
  qed
qed

lemma length_decimal_digits_le: "n < 10 ^ Suc k \<Longrightarrow> length (decimal_digits n) \<le> Suc k"
proof (induction k arbitrary: n)
  case 0
  then show ?case by (simp add: decimal_digits_small)
next
  case (Suc k)
  show ?case
  proof (cases "n < 10")
    case True
    then show ?thesis by (simp add: decimal_digits_small)
  next
    case False
    from Suc.prems have "n div 10 < 10 ^ Suc k"
      by (simp add: less_mult_imp_div_less mult.commute)
    then have "length (decimal_digits (n div 10)) \<le> Suc k" by (rule Suc.IH)
    with False show ?thesis by (simp add: decimal_digits_large)
  qed
qed

lemma length_decimal_digits_gt: "10 ^ k \<le> n \<Longrightarrow> k < length (decimal_digits n)"
proof (induction k arbitrary: n)
  case 0
  show ?case by (cases "n < 10") (simp_all add: decimal_digits_small decimal_digits_large)
next
  case (Suc k)
  then have big: "10 \<le> n"
    by (metis One_nat_def Suc_leI le_trans power_one_right power_increasing
        one_le_numeral zero_less_Suc)
  from Suc.prems have "10 ^ k \<le> n div 10"
    by (simp add: less_eq_div_iff_mult_less_eq mult.commute)
  then have "k < length (decimal_digits (n div 10))" by (rule Suc.IH)
  with big show ?case by (simp add: decimal_digits_large)
qed

lemma length_four_digit_year:
  assumes "1000 \<le> n" and "n \<le> 9999"
  shows "length (decimal_digits n) = 4"
proof -
  have "(10::nat) ^ 3 \<le> n" using assms(1) by simp
  then have "3 < length (decimal_digits n)" by (rule length_decimal_digits_gt)
  moreover have "n < 10 ^ Suc 3" using assms(2) by simp
  then have "length (decimal_digits n) \<le> Suc 3" by (rule length_decimal_digits_le)
  ultimately show ?thesis by simp
qed

lemma length_short_year:
  assumes "n < 1000"
  shows "length (decimal_digits n) < 4"
proof -
  have "n < 10 ^ Suc 2" using assms by simp
  then have "length (decimal_digits n) \<le> Suc 2" by (rule length_decimal_digits_le)
  then show ?thesis by simp
qed

lemma length_strftime_iso_z: "length (strftime_iso_z d) = length (decimal_digits (year d)) + 16"
  by (simp add: strftime_iso_z_def length_zero_pad2)

lemma char_at_after: "char_at (length y + i) (y @ t) = char_at i t"
  by (simp add: char_at_def)

lemma char_at_after0: "char_at (length y) (y @ t) = char_at 0 t"
  using char_at_after [of y 0 t] by simp

lemma field_after: "field (length y + i) n (y @ t) = field i n t"
  by (simp add: field_def)

lemma field_before: "field 0 (length y) (y @ t) = decimal 0 y"
  by (simp add: field_def)

lemma strftime_iso_z_shape_at:
  assumes "valid_datetime d"
  shows "iso_z_string_at (length (decimal_digits (year d))) d (strftime_iso_z d)"
proof -
  define y where "y = decimal_digits (year d)"
  define t where "t = ''-'' @ zero_pad2 (month d) @ ''-'' @ zero_pad2 (day d) @ ''T'' @
     zero_pad2 (hour d) @ '':'' @ zero_pad2 (minute d) @ '':'' @ zero_pad2 (second d) @ ''Z''"
  from assms have m: "month d < 100" and da: "day d < 100"
    and h: "hour d < 100" and mi: "minute d < 100" and s: "second d < 100"
    by (simp_all add: valid_datetime_def)
  have st: "strftime_iso_z d = y @ t"
    by (simp add: strftime_iso_z_def y_def t_def)
  have lt: "length t = 16"
    by (simp add: t_def zero_pad2_def)
  have f1: "take 2 (drop 1 t) = zero_pad2 (month d)"
    by (simp add: t_def zero_pad2_def)
  have f4: "take 2 (drop 4 t) = zero_pad2 (day d)"
    by (simp add: t_def zero_pad2_def)
  have f7: "take 2 (drop 7 t) = zero_pad2 (hour d)"
    by (simp add: t_def zero_pad2_def)
  have f10: "take 2 (drop 10 t) = zero_pad2 (minute d)"
    by (simp add: t_def zero_pad2_def)
  have f13: "take 2 (drop 13 t) = zero_pad2 (second d)"
    by (simp add: t_def zero_pad2_def)
  have fields: "field 1 2 t = Some (month d)" "field 4 2 t = Some (day d)"
    "field 7 2 t = Some (hour d)" "field 10 2 t = Some (minute d)"
    "field 13 2 t = Some (second d)"
    unfolding field_def lt f1 f4 f7 f10 f13
    by (simp_all add: decimal_zero_pad2 m da h mi s)
  have chars: "char_at 0 t = Some CHR ''-''" "char_at 3 t = Some CHR ''-''"
    "char_at 6 t = Some CHR ''T''" "char_at 9 t = Some CHR '':''"
    "char_at 12 t = Some CHR '':''" "char_at 15 t = Some CHR ''Z''"
    by (simp_all add: char_at_def t_def zero_pad2_def)
  have yr: "decimal 0 y = Some (year d)"
    unfolding y_def by (rule decimal_decimal_digits)
  have "iso_z_string_at (length y) d (y @ t)"
    unfolding iso_z_string_at_def
    by (simp only: char_at_after char_at_after0 field_after field_before fields chars yr
        length_append lt)
  then show ?thesis by (simp only: st y_def)
qed

text \<open>A year of four digits gives the form \<^verbatim>\<open>YYYY-MM-DDTHH:MM:SSZ\<close>.\<close>

lemma strftime_iso_z_shape:
  assumes "valid_datetime d" and "1000 \<le> year d"
  shows "iso_z_string d (strftime_iso_z d)"
proof -
  from assms have "length (decimal_digits (year d)) = 4"
    by (simp add: length_four_digit_year valid_datetime_def)
  with strftime_iso_z_shape_at [OF assms(1)]
  have "iso_z_string_at 4 d (strftime_iso_z d)" by simp
  then show ?thesis
    by (simp add: iso_z_string_at_def iso_z_string_def)
qed

text \<open>A year below 1000 gives a shorter string, which is not of that form.\<close>

lemma strftime_iso_z_short:
  assumes "year d < 1000"
  shows "length (strftime_iso_z d) < 20" and "\<not> iso_z_string d (strftime_iso_z d)"
proof -
  show l: "length (strftime_iso_z d) < 20"
    using length_short_year [OF assms] by (simp add: length_strftime_iso_z)
  then show "\<not> iso_z_string d (strftime_iso_z d)"
    by (simp add: iso_z_string_def)
qed

lemma strftime_year_999:
  "strftime_iso_z \<lparr>year = 999, month = 1, day = 1, hour = 0, minute = 0, second = 0,
                   utcoffset = None\<rparr> = ''999-01-01T00:00:00Z''"
  by (simp add: strftime_defs)

lemma strftime_ignores_offset: "strftime_iso_z (d\<lparr>utcoffset := off\<rparr>) = strftime_iso_z d"
  by (simp add: strftime_iso_z_def)

lemma seconds_of_day:
  fixes h m s :: nat
  assumes "m < 60" "s < 60"
  shows "(h * 3600 + m * 60 + s) div 3600 = h"
    and "(h * 3600 + m * 60 + s) mod 3600 div 60 = m"
    and "(h * 3600 + m * 60 + s) mod 60 = s"
proof -
  have r: "m * 60 + s < 3600" using assms by simp
  have e: "h * 3600 + m * 60 + s = (m * 60 + s) + h * 3600" by simp
  show "(h * 3600 + m * 60 + s) div 3600 = h"
    unfolding e using r by (simp only: div_mult_self1 div_less)
  have "(h * 3600 + m * 60 + s) mod 3600 = m * 60 + s"
    unfolding e using r by (simp only: mod_mult_self1 mod_less)
  moreover have "(s + m * 60) div 60 = m"
    using assms(2) by (simp only: div_mult_self1 div_less)
  ultimately show "(h * 3600 + m * 60 + s) mod 3600 div 60 = m"
    by (simp add: add.commute)
  have e2: "h * 3600 + m * 60 + s = s + (h * 60 + m) * 60" by simp
  show "(h * 3600 + m * 60 + s) mod 60 = s"
    unfolding e2 using assms(2) by (simp only: mod_mult_self1 mod_less)
qed

lemma set_time_of_day_same:
  assumes "minute d < 60" "second d < 60"
  shows "set_time_of_day (hour d * 3600 + minute d * 60 + second d) d = d\<lparr>utcoffset := Some 0\<rparr>"
  unfolding set_time_of_day_def seconds_of_day [OF assms] by simp

lemma utc_instant_zero_offset:
  assumes "valid_datetime d" and "utcoffset d = None \<or> utcoffset d = Some 0"
  shows "strftime_iso_z (utc_instant d) = strftime_iso_z d"
proof (cases "utcoffset d")
  case None
  then show ?thesis by (simp add: utc_instant_def)
next
  case (Some off)
  with assms(2) have z: "utcoffset d = Some 0" by simp
  from assms(1) have r: "minute d < 60" "second d < 60" "hour d < 24"
    by (simp_all add: valid_datetime_def)
  then have lt: "hour d * 3600 + minute d * 60 + second d < 86400" by simp
  have "utc_instant d = set_time_of_day (hour d * 3600 + minute d * 60 + second d) d"
    using lt by (simp add: utc_instant_def z Let_def del: of_nat_add of_nat_mult)
  then show ?thesis
    by (simp only: set_time_of_day_same [OF r(1,2)] strftime_ignores_offset)
qed

text \<open>
  C3, as the specification states it, asks for the instant re-expressed in UTC. On an
  input with the offset \<^verbatim>\<open>+05:00\<close> the code returns the local clock time with a
  \<^verbatim>\<open>Z\<close> appended, where the instant in UTC is five hours earlier.
\<close>

theorem validate_time_offset_counterexample:
  "validate_time dateutil_iso (PStr ''2021-03-01T10:00:00+05:00'') = Inr ''2021-03-01T10:00:00Z''
   \<and> spec_validate_time dateutil_iso (PStr ''2021-03-01T10:00:00+05:00'')
       = Inr ''2021-03-01T05:00:00Z''"
  by (simp add: validate_time_def spec_validate_time_def parse_time_def iso_defs strftime_defs
      utc_instant_def set_time_of_day_def)

text \<open>
  C3, amended. When the parser rejects the input, \<^verbatim>\<open>validate_time\<close> raises its parse
  error. When the parser returns a date-time, \<^verbatim>\<open>validate_time\<close> returns the fields of
  that date-time as \<^verbatim>\<open>strftime\<close> prints them, whatever its offset: the year as its
  decimal number and the other five fields in two digits each, with the separators of
  the format. For a year from 1000 to 9999 this is the form \<^verbatim>\<open>YYYY-MM-DDTHH:MM:SSZ\<close>;
  for a year below 1000 the year has fewer than four digits and the string is shorter
  than that form. When the date-time is naive or has offset zero, the result is the
  instant in UTC. On \<^verbatim>\<open>"2021-03-01 10:00"\<close> the result is
  \<^verbatim>\<open>"2021-03-01T10:00:00Z"\<close>.
\<close>

theorem validate_time_wall_clock:
  "(parse_time parse v = None \<longrightarrow> validate_time parse v = Inl (UnableToParseInputTime v))
   \<and> (parse_time parse v = Some d \<longrightarrow>
        validate_time parse v = Inr (strftime_iso_z d)
        \<and> strftime_iso_z (d\<lparr>utcoffset := off\<rparr>) = strftime_iso_z d
        \<and> (valid_datetime d \<longrightarrow>
             iso_z_string_at (length (decimal_digits (year d))) d (strftime_iso_z d))
        \<and> (valid_datetime d \<and> 1000 \<le> year d \<longrightarrow> iso_z_string d (strftime_iso_z d))
        \<and> (year d < 1000 \<longrightarrow>
             length (strftime_iso_z d) < 20 \<and> \<not> iso_z_string d (strftime_iso_z d))
        \<and> (valid_datetime d \<and> (utcoffset d = None \<or> utcoffset d = Some 0) \<longrightarrow>
             validate_time parse v = spec_validate_time parse v))
   \<and> validate_time dateutil_iso (PStr ''2021-03-01 10:00'') = Inr ''2021-03-01T10:00:00Z''"
proof -
  have a: "parse_time parse v = None \<longrightarrow> validate_time parse v = Inl (UnableToParseInputTime v)"
    by (simp add: validate_time_def)
  have b: "parse_time parse v = Some d \<longrightarrow> validate_time parse v = Inr (strftime_iso_z d)"
    by (simp add: validate_time_def)
  have c: "parse_time parse v = Some d \<longrightarrow>
      (valid_datetime d \<and> (utcoffset d = None \<or> utcoffset d = Some 0) \<longrightarrow>
             validate_time parse v = spec_validate_time parse v)"
    using utc_instant_zero_offset [of d]
    by (auto simp: validate_time_def spec_validate_time_def)
  have e: "validate_time dateutil_iso (PStr ''2021-03-01 10:00'') = Inr ''2021-03-01T10:00:00Z''"
    by (simp add: validate_time_def parse_time_def iso_defs strftime_defs)
  show ?thesis
    using a b c e strftime_ignores_offset [where d = d and off = off]
      strftime_iso_z_shape_at [of d] strftime_iso_z_shape [of d] strftime_iso_z_short [of d]
    by blast
qed

theorem validate_time_wall_clock_witness:
  "validate_time dateutil_iso (PStr ''not a date'') = Inl (UnableToParseInputTime (PStr ''not a date''))
   \<and> validate_time dateutil_iso (PStr ''2021-03-01T10:00:00Z'') = Inr ''2021-03-01T10:00:00Z''
   \<and> iso_z_string \<lparr>year = 2021, month = 3, day = 1, hour = 10, minute = 0, second = 0,
                    utcoffset = Some 0\<rparr> ''2021-03-01T10:00:00Z''
   \<and> spec_validate_time dateutil_iso (PStr ''2021-03-01T10:00:00Z'') = Inr ''2021-03-01T10:00:00Z''
   \<and> validate_time dateutil_iso (PStr ''0999-01-01'') = Inr ''999-01-01T00:00:00Z''
   \<and> iso_z_string_at 3 \<lparr>year = 999, month = 1, day = 1, hour = 0, minute = 0, second = 0,
                    utcoffset = None\<rparr> ''999-01-01T00:00:00Z''
   \<and> \<not> iso_z_string \<lparr>year = 999, month = 1, day = 1, hour = 0, minute = 0, second = 0,
                    utcoffset = None\<rparr> ''999-01-01T00:00:00Z''"
proof -
  define d0 where "d0 = \<lparr>year = 2021, month = 3, day = 1, hour = 10, minute = 0, second = 0,
                    utcoffset = Some (0::int)\<rparr>"
  define d1 where "d1 = \<lparr>year = 999, month = 1, day = 1, hour = 0, minute = 0, second = 0,
                    utcoffset = (None :: int option)\<rparr>"
  have n: "parse_time dateutil_iso (PStr ''not a date'') = None"
    by (simp add: parse_time_def iso_defs)
  have p: "parse_time dateutil_iso (PStr ''2021-03-01T10:00:00Z'') = Some d0"
    by (simp add: parse_time_def iso_defs d0_def)
  have v: "valid_datetime d0" "1000 \<le> year d0"
    by (simp_all add: valid_datetime_def d0_def)
  have z: "utcoffset d0 = None \<or> utcoffset d0 = Some 0"
    by (simp add: d0_def)
  have f: "strftime_iso_z d0 = ''2021-03-01T10:00:00Z''"
    by (simp add: strftime_defs d0_def)
  have p1: "parse_time dateutil_iso (PStr ''0999-01-01'') = Some d1"
    by (simp add: parse_time_def iso_defs d1_def)
  have v1: "valid_datetime d1" "year d1 < 1000"
    by (simp_all add: valid_datetime_def d1_def)
  have f1: "strftime_iso_z d1 = ''999-01-01T00:00:00Z''"
    by (simp add: strftime_defs d1_def)
  have l1: "length (decimal_digits (year d1)) = 3"
    by (simp add: d1_def decimal_digits.simps)
  from validate_time_wall_clock [of dateutil_iso "PStr ''not a date''"] n
  have a: "validate_time dateutil_iso (PStr ''not a date'')
             = Inl (UnableToParseInputTime (PStr ''not a date''))"
    by blast
  from validate_time_wall_clock [of dateutil_iso "PStr ''2021-03-01T10:00:00Z''" d0] p v z
  have b: "validate_time dateutil_iso (PStr ''2021-03-01T10:00:00Z'') = Inr (strftime_iso_z d0)"
    and c: "iso_z_string d0 (strftime_iso_z d0)"
    and e: "validate_time dateutil_iso (PStr ''2021-03-01T10:00:00Z'')
             = spec_validate_time dateutil_iso (PStr ''2021-03-01T10:00:00Z'')"
    by blast+
  from validate_time_wall_clock [of dateutil_iso "PStr ''0999-01-01''" d1] p1 v1
  have b1: "validate_time dateutil_iso (PStr ''0999-01-01'') = Inr (strftime_iso_z d1)"
    and c1: "iso_z_string_at (length (decimal_digits (year d1))) d1 (strftime_iso_z d1)"
    and e1: "\<not> iso_z_string d1 (strftime_iso_z d1)"
    by blast+
  from a b c e b1 c1 e1 show ?thesis
    unfolding f f1 l1 unfolding d0_def d1_def by simp
qed

text \<open>
  C5, as the specification states it, asks for an absent field on \<^verbatim>\<open>None\<close> as on the
  empty string, and for the UTC string otherwise. The guard of line 117 compares with
  the empty string only: \<^verbatim>\<open>None\<close> goes on to the parser and ends in the parse error;
  and an input with an offset is formatted without conversion, as in
  \<^verbatim>\<open>validate_time\<close>.
\<close>

theorem validate_event_time_none_counterexample:
  "validate_event_time dateutil_iso PNone = Inl (UnableToParseInputTime PNone)
   \<and> validate_event_time dateutil_iso PNone \<noteq> Inr None
   \<and> validate_event_time dateutil_iso (PStr ''2021-03-01T10:00:00+05:00'')
       = Inr (Some ''2021-03-01T10:00:00Z'')
   \<and> map_sum id Some (spec_validate_time dateutil_iso (PStr ''2021-03-01T10:00:00+05:00''))
       = Inr (Some ''2021-03-01T05:00:00Z'')"
  by (simp add: validate_event_time_def spec_validate_time_def parse_time_def iso_defs strftime_defs
      utc_instant_def set_time_of_day_def)

text \<open>
  C5, amended. \<^verbatim>\<open>validate_event_time\<close> returns \<^verbatim>\<open>None\<close> (an absent field) on the
  empty string without parsing; on \<^verbatim>\<open>None\<close> it raises the parse error; on every
  other input it behaves as \<^verbatim>\<open>validate_time\<close> does: the parse error when the parser
  rejects the input, and otherwise the fields of the parsed date-time as
  \<^verbatim>\<open>strftime\<close> prints them, with no conversion to UTC: the year as its decimal
  number and the other fields in two digits each, which is the form
  \<^verbatim>\<open>YYYY-MM-DDTHH:MM:SSZ\<close> for a year from 1000 to 9999 and a shorter string for a
  year below 1000.
\<close>

theorem validate_event_time_spec:
  "validate_event_time parse (PStr []) = Inr None
   \<and> validate_event_time parse PNone = Inl (UnableToParseInputTime PNone)
   \<and> (v \<noteq> PStr [] \<longrightarrow> validate_event_time parse v = map_sum id Some (validate_time parse v))
   \<and> (v \<noteq> PStr [] \<and> parse_time parse v = None \<longrightarrow>
        validate_event_time parse v = Inl (UnableToParseInputTime v))
   \<and> (v \<noteq> PStr [] \<and> parse_time parse v = Some d \<longrightarrow>
        validate_event_time parse v = Inr (Some (strftime_iso_z d))
        \<and> (valid_datetime d \<longrightarrow>
             iso_z_string_at (length (decimal_digits (year d))) d (strftime_iso_z d))
        \<and> (valid_datetime d \<and> 1000 \<le> year d \<longrightarrow> iso_z_string d (strftime_iso_z d))
        \<and> (year d < 1000 \<longrightarrow>
             length (strftime_iso_z d) < 20 \<and> \<not> iso_z_string d (strftime_iso_z d)))"
proof -
  have a: "validate_event_time parse (PStr []) = Inr None
   \<and> validate_event_time parse PNone = Inl (UnableToParseInputTime PNone)
   \<and> (v \<noteq> PStr [] \<longrightarrow> validate_event_time parse v = map_sum id Some (validate_time parse v))
   \<and> (v \<noteq> PStr [] \<and> parse_time parse v = None \<longrightarrow>
        validate_event_time parse v = Inl (UnableToParseInputTime v))
   \<and> (v \<noteq> PStr [] \<and> parse_time parse v = Some d \<longrightarrow>
        validate_event_time parse v = Inr (Some (strftime_iso_z d)))"
    by (auto simp: validate_event_time_def validate_time_def parse_time_def split: option.splits)
  show ?thesis
    using a strftime_iso_z_shape_at [of d] strftime_iso_z_shape [of d]
      strftime_iso_z_short [of d]
    by blast
qed

theorem validate_event_time_spec_witness:
  "validate_event_time dateutil_iso (PStr []) = Inr None
   \<and> validate_event_time dateutil_iso PNone = Inl (UnableToParseInputTime PNone)
   \<and> validate_event_time dateutil_iso (PStr ''not a date'')
       = Inl (UnableToParseInputTime (PStr ''not a date''))
   \<and> validate_event_time dateutil_iso (PStr ''2021-03-01 10:00'')
       = Inr (Some ''2021-03-01T10:00:00Z'')
   \<and> map_sum id Some (validate_time dateutil_iso (PStr ''2021-03-01 10:00''))
       = Inr (Some ''2021-03-01T10:00:00Z'')
   \<and> iso_z_string \<lparr>year = 2021, month = 3, day = 1, hour = 10, minute = 0, second = 0,
                    utcoffset = None\<rparr> ''2021-03-01T10:00:00Z''
   \<and> validate_event_time dateutil_iso (PStr ''0999-01-01'') = Inr (Some ''999-01-01T00:00:00Z'')
   \<and> \<not> iso_z_string \<lparr>year = 999, month = 1, day = 1, hour = 0, minute = 0, second = 0,
                    utcoffset = None\<rparr> ''999-01-01T00:00:00Z''"
proof -
  define d0 where "d0 = \<lparr>year = 2021, month = 3, day = 1, hour = 10, minute = 0, second = 0,
                    utcoffset = (None :: int option)\<rparr>"
  define d1 where "d1 = \<lparr>year = 999, month = 1, day = 1, hour = 0, minute = 0, second = 0,
                    utcoffset = (None :: int option)\<rparr>"
  have n: "parse_time dateutil_iso (PStr ''not a date'') = None"
    by (simp add: parse_time_def iso_defs)
  have p: "parse_time dateutil_iso (PStr ''2021-03-01 10:00'') = Some d0"
    by (simp add: parse_time_def iso_defs d0_def)
  have v: "valid_datetime d0" "1000 \<le> year d0"
    by (simp_all add: valid_datetime_def d0_def)
  have f: "strftime_iso_z d0 = ''2021-03-01T10:00:00Z''"
    by (simp add: strftime_defs d0_def)
  have p1: "parse_time dateutil_iso (PStr ''0999-01-01'') = Some d1"
    by (simp add: parse_time_def iso_defs d1_def)
  have v1: "year d1 < 1000"
    by (simp add: d1_def)
  have f1: "strftime_iso_z d1 = ''999-01-01T00:00:00Z''"
    by (simp add: strftime_defs d1_def)
  have ne: "PStr ''not a date'' \<noteq> PStr []" "PStr ''2021-03-01 10:00'' \<noteq> PStr []"
    "PStr ''0999-01-01'' \<noteq> PStr []"
    by simp_all
  from validate_event_time_spec [of dateutil_iso "PStr ''not a date''"] n ne(1)
  have a: "validate_event_time dateutil_iso (PStr []) = Inr None"
    and a': "validate_event_time dateutil_iso PNone = Inl (UnableToParseInputTime PNone)"
    and b: "validate_event_time dateutil_iso (PStr ''not a date'')
             = Inl (UnableToParseInputTime (PStr ''not a date''))"
    by blast+
  from validate_event_time_spec [of dateutil_iso "PStr ''2021-03-01 10:00''" d0] p ne(2) v
  have c: "validate_event_time dateutil_iso (PStr ''2021-03-01 10:00'')
             = Inr (Some (strftime_iso_z d0))"
    and e: "validate_event_time dateutil_iso (PStr ''2021-03-01 10:00'')
             = map_sum id Some (validate_time dateutil_iso (PStr ''2021-03-01 10:00''))"
    and g: "iso_z_string d0 (strftime_iso_z d0)"
    by blast+
  from validate_event_time_spec [of dateutil_iso "PStr ''0999-01-01''" d1] p1 ne(3) v1
  have c1: "validate_event_time dateutil_iso (PStr ''0999-01-01'')
             = Inr (Some (strftime_iso_z d1))"
    and g1: "\<not> iso_z_string d1 (strftime_iso_z d1)"
    by blast+
  from a a' b c e g c1 g1 show ?thesis
    unfolding f f1 unfolding d0_def d1_def by simp
qed

end
